theory Spec2Isabelle
  imports Main "HOL-Library.Word"
begin

section \<open>Conventions of the embedding\<close>

text \<open>
  The sources are C++ headers of an adapter between a simulation framework (MOOSE) and a
  finite-element library (MFEM). A class is a record of its data members; a member
  function takes the object last and returns it updated, next to whatever it returns or
  writes through a reference parameter. A leading underscore of a member name is dropped
  (\<open>_problem_data\<close> is \<open>problem_data\<close>), since a name cannot start with one here; the
  parameter \<open>kernel\<close> is written \<open>kernel'\<close>, the plain name being a constant of the logic.
  A base class whose declaration is not among the sources is the extension slot of the
  record (\<open>'a X_scheme\<close>), so that a statement about \<open>'a X_scheme\<close> holds whatever
  the base class and the derived classes store.

  Objects of the two wrapped systems are opaque: each is a datatype around a handle
  number, which keeps the types of the library apart without saying anything about what
  is inside them.
\<close>

subsection \<open>Machine values\<close>

text \<open>
  A \<open>double\<close> is its 64 bit pattern: no arithmetic is done on one anywhere in these
  sources, so nothing but the identity of the value is needed. An \<open>int\<close> and an
  \<open>unsigned int\<close> are 32 bit words.
\<close>

datatype double = Double "64 word"

type_synonym Vector = "double list"

subsection \<open>Pointers\<close>

text \<open>
  A raw pointer is null or an address of 64 bits; the type parameter is the static type
  of the pointee and carries no data. A \<open>std::shared_ptr\<close> is the raw pointer it owns
  (\<open>get\<close>); reference counts are not modelled.
\<close>

datatype 'a ptr = nullptr | Ptr "64 word"

text \<open>
  \<open>static_cast\<close> from a pointer to a base class to a pointer to a class derived from it
  keeps the null pointer and otherwise gives the address of the enclosing object: the
  address of the base subobject less the offset of that subobject in the derived class.
  The offset belongs to the derived class, whose declaration decides it: it is 0 when
  the base is the first thing in the object, and not otherwise (a derived class with
  another base in front). The conversion back, from the derived class to the base,
  which the language does without a cast, adds the offset. A cast is defined by the
  language only when the pointer is to the base subobject of an object of the derived
  class; for any other pointer the definition gives what the subtraction gives.
\<close>

definition static_cast :: "64 word \<Rightarrow> 'a ptr \<Rightarrow> 'b ptr" where
  "static_cast base_offset p =
     (case p of nullptr \<Rightarrow> nullptr | Ptr a \<Rightarrow> Ptr (a - base_offset))"

definition to_base :: "64 word \<Rightarrow> 'b ptr \<Rightarrow> 'a ptr" where
  "to_base base_offset q =
     (case q of nullptr \<Rightarrow> nullptr | Ptr d \<Rightarrow> Ptr (d + base_offset))"

datatype 'a shared_ptr = shared_ptr (get: "'a ptr")

subsection \<open>How a call ends\<close>

text \<open>
  \<open>mooseError\<close> does not return to its caller: the call ends with the message, and
  the object is in the state it had reached (\<open>Raised\<close>). \<open>MFEM_ABORT\<close> ends the
  program with its message (\<open>Aborted\<close>).
\<close>

datatype 's outcome = Returned 's | Raised string 's

datatype 'a abortable = Value 'a | Aborted string

section \<open>The wrapped library's objects\<close>

datatype ParMesh = ParMesh nat
datatype ODESolver = ODESolver nat
datatype BlockVector = BlockVector nat
datatype Solver = Solver nat
datatype NewtonSolver = NewtonSolver nat
datatype Device = Device nat
datatype MPI_Comm = MPI_Comm nat
datatype PropertyManager = PropertyManager nat
datatype ConstantCoefficient = ConstantCoefficient double

text \<open>
  Modelled from the spec: the types of the registries of \<open>platypus::Problem\<close>
  (\<open>BCMap\<close>, \<open>Coefficients\<close>, \<open>Outputs\<close>, \<open>InputParameters\<close>, \<open>FECollections\<close>,
  \<open>FESpaces\<close>, \<open>GridFunctions\<close>) are missing: their headers are not among the sources.
  The spec calls them registries; one is kept as a map from a name to a handle.
\<close>

type_synonym registry = "string \<rightharpoonup> nat"

section \<open>platypus::Problem\<close>

text \<open>
  The data members of the base problem class, in the order of the declaration, each with
  its initialiser: the pointers start null.
\<close>

record Problem =
  pmesh :: "ParMesh option"
  bc_map :: registry
  coefficients :: registry
  outputs :: registry
  solver_options :: registry
  ode_solver :: "ODESolver option"
  f_vector :: "BlockVector option"
  jacobian_preconditioner :: "Solver option"
  jacobian_solver :: "Solver option"
  nonlinear_solver :: "NewtonSolver option"
  fecs :: registry
  fespaces :: registry
  gridfunctions :: registry
  device :: Device
  comm :: MPI_Comm
  myid :: "32 word"
  num_procs :: "32 word"

section \<open>TimeDomainProblemOperator\<close>

text \<open>
  Modelled from the spec: the declaration of \<open>ProblemOperatorInterface\<close> is missing.
  The constructor of the operator hands it a reference to the problem, which is the one
  member kept here; the state of \<open>mfem::TimeDependentOperator\<close> and the rest of the
  interface are the extension slot.
\<close>

record TimeDomainProblemOperator =
  operator_problem :: Problem

text \<open>
  \<open>ImplicitSolve\<close> reads \<open>dt\<close> and \<open>X\<close> and may write \<open>dX_dt\<close>, so it returns \<open>dX_dt\<close>
  and the operator. Its body is empty.
\<close>

definition ImplicitSolve ::
  "double \<Rightarrow> Vector \<Rightarrow> Vector \<Rightarrow> 'a TimeDomainProblemOperator_scheme
     \<Rightarrow> Vector \<times> 'a TimeDomainProblemOperator_scheme" where
  "ImplicitSolve dt X dX_dt self = (dX_dt, self)"

section \<open>MFEMMaterial\<close>

text \<open>
  A material has the list of its block names; what \<open>MFEMGeneralUserObject\<close> stores is
  the extension slot. \<open>platypus::Subdomain\<close> is declared in \<open>coefficients.h\<close>, which is
  not among the sources, so a subdomain is a value of any type. \<open>storeCoefficients\<close>
  takes the subdomain by reference and returns it with the material. The four bodies are
  empty.
\<close>

record MFEMMaterial =
  blocks :: "string list"

definition execute :: "'a MFEMMaterial_scheme \<Rightarrow> 'a MFEMMaterial_scheme" where
  "execute self = self"

definition initialize :: "'a MFEMMaterial_scheme \<Rightarrow> 'a MFEMMaterial_scheme" where
  "initialize self = self"

definition finalize :: "'a MFEMMaterial_scheme \<Rightarrow> 'a MFEMMaterial_scheme" where
  "finalize self = self"

definition storeCoefficients ::
  "'sd \<Rightarrow> 'a MFEMMaterial_scheme \<Rightarrow> 'sd \<times> 'a MFEMMaterial_scheme" where
  "storeCoefficients subdomain self = (subdomain, self)"

section \<open>The equation system\<close>

text \<open>
  Modelled from the spec: the class \<open>platypus::EquationSystem\<close> is missing (it is
  declared in \<open>equation_system.h\<close>, which is not among the sources). Of its two member
  functions that the sources call, only the names and the arguments are known. An
  equation system is therefore the sequence of the requests it has received, oldest
  first, and each of the two member functions appends its request. Nothing is assumed
  about what the class does with a request: whatever it stores is a function of this
  sequence. \<open>'k\<close> is the kernel (\<open>std::shared_ptr<MFEMKernel<T>>\<close>).
\<close>

datatype 'k request =
    TrialVariableNameIfMissing string
  | Kernel string 'k

type_synonym 'k EquationSystem = "'k request list"

text \<open>
  Modelled from the spec: the body of \<open>EquationSystem::AddTrialVariableNameIfMissing\<close>
  is missing; the call is recorded.
\<close>

definition AddTrialVariableNameIfMissing ::
  "string \<Rightarrow> 'k EquationSystem \<Rightarrow> 'k EquationSystem" where
  "AddTrialVariableNameIfMissing var_name es = es @ [TrialVariableNameIfMissing var_name]"

text \<open>
  Modelled from the spec: the body of \<open>EquationSystem::AddKernel\<close> is missing; the call
  is recorded.
\<close>

definition EquationSystem_AddKernel ::
  "string \<Rightarrow> 'k \<Rightarrow> 'k EquationSystem \<Rightarrow> 'k EquationSystem" where
  "EquationSystem_AddKernel var_name kernel' es = es @ [Kernel var_name kernel']"

text \<open>
  Modelled from the spec: the data members of \<open>platypus::EquationSystem\<close> are missing.
  What a sequence of requests amounts to is read here as the names of the two member
  functions say it: a trial variable name joins the list of names unless it is there
  already (\<open>trial_var_names\<close>), and a kernel is registered under the variable name it
  came with, after the kernels registered under that name before (\<open>kernels_of\<close>).
\<close>

definition add_if_missing :: "string \<Rightarrow> string list \<Rightarrow> string list" where
  "add_if_missing v names = (if v \<in> set names then names else names @ [v])"

fun trial_var_names_from :: "string list \<Rightarrow> 'k EquationSystem \<Rightarrow> string list" where
  "trial_var_names_from names [] = names"
| "trial_var_names_from names (TrialVariableNameIfMissing v # es) =
     trial_var_names_from (add_if_missing v names) es"
| "trial_var_names_from names (Kernel v k # es) = trial_var_names_from names es"

definition trial_var_names :: "'k EquationSystem \<Rightarrow> string list" where
  "trial_var_names es = trial_var_names_from [] es"

fun kernels_of :: "'k EquationSystem \<Rightarrow> string \<Rightarrow> 'k list" where
  "kernels_of [] name = []"
| "kernels_of (TrialVariableNameIfMissing v # es) name = kernels_of es name"
| "kernels_of (Kernel v k # es) name =
     (if v = name then k # kernels_of es name else kernels_of es name)"

section \<open>MFEMProblem\<close>

text \<open>
  The parameters of an object of the input file are pairs of a name and a value. A grid
  function is known by the variable type and the parameters it was made from.
\<close>

type_synonym InputParameters = "(string \<times> string) list"

datatype GridFunction = GridFunction string InputParameters

text \<open>
  Modelled from the spec: the declaration of \<open>MFEMProblemData\<close> is missing
  (\<open>MFEMProblemData.h\<close> is not among the sources). The sources use two of its members:
  \<open>_eqn_system\<close>, a pointer that is tested for null and dereferenced, and
  \<open>_properties\<close>. The pointer is \<open>None\<close> when null and otherwise holds the equation
  system it points to, so that a call through the pointer updates the pointee in place.
  The third member is the registry of grid functions that the spec speaks of, a map from
  the name of a variable to its grid function.
\<close>

record 'k MFEMProblemData =
  eqn_system :: "'k EquationSystem option"
  properties :: PropertyManager
  data_gridfunctions :: "string \<rightharpoonup> GridFunction"

text \<open>
  An \<open>MFEMProblem\<close> has its problem data. Of the state of its base class
  \<open>ExternalProblem\<close> only what \<open>isTransient()\<close> reads is named; the rest is the
  extension slot.
\<close>

record 'k MFEMProblem =
  transient :: bool
  problem_data :: "'k MFEMProblemData"

definition isTransient :: "('k, 'a) MFEMProblem_scheme \<Rightarrow> bool" where
  "isTransient self = transient self"

definition getProblemData :: "('k, 'a) MFEMProblem_scheme \<Rightarrow> 'k MFEMProblemData" where
  "getProblemData self = problem_data self"

definition getProperties :: "('k, 'a) MFEMProblem_scheme \<Rightarrow> PropertyManager" where
  "getProperties self = properties (problem_data self)"

text \<open>The three overrides with a body in the class declaration.\<close>

definition externalSolve :: "('k, 'a) MFEMProblem_scheme \<Rightarrow> ('k, 'a) MFEMProblem_scheme" where
  "externalSolve self = self"

definition nlConverged ::
  "32 word \<Rightarrow> ('k, 'a) MFEMProblem_scheme \<Rightarrow> bool \<times> ('k, 'a) MFEMProblem_scheme" where
  "nlConverged nl_sys_num self = (True, self)"

definition syncSolutions ::
  "'d \<Rightarrow> ('k, 'a) MFEMProblem_scheme \<Rightarrow> ('k, 'a) MFEMProblem_scheme" where
  "syncSolutions direction self = self"

text \<open>
  The protected template \<open>addKernel\<close>. With an equation system, the two calls go
  through the pointer one after the other; without one, \<open>mooseError\<close> is reached before
  anything has been written. The apostrophe of the message is the character \<open>0x27\<close>.
\<close>

definition addKernel ::
  "string \<Rightarrow> 'k \<Rightarrow> ('k, 'a) MFEMProblem_scheme \<Rightarrow> ('k, 'a) MFEMProblem_scheme outcome" where
  "addKernel var_name kernel' self =
     (case eqn_system (getProblemData self) of
        Some es \<Rightarrow>
          Returned (self\<lparr>problem_data := (getProblemData self)
            \<lparr>eqn_system :=
               Some (EquationSystem_AddKernel var_name kernel'
                       (AddTrialVariableNameIfMissing var_name es))\<rparr>\<rparr>)
      | None \<Rightarrow>
          Raised (''Cannot add kernel with name '' @ [CHR 0x27] @ var_name @ [CHR 0x27] @
                  '' because there is no equation system.'') self)"

section \<open>ProblemBuilder\<close>

text \<open>
  The builder owns the problem through a shared pointer, and has the constant
  coefficient \<open>_one_coef\<close>, initialised to \<open>1.0\<close> (bit pattern
  \<open>0x3FF0000000000000\<close>). The class is abstract: what a derived builder adds is the
  extension slot. The protected constructor wraps the raw pointer it is given.
\<close>

record ProblemBuilder =
  problem :: "Problem shared_ptr"
  one_coef :: ConstantCoefficient

definition ProblemBuilder :: "Problem ptr \<Rightarrow> ProblemBuilder" where
  "ProblemBuilder p =
     \<lparr>problem = shared_ptr p,
      one_coef = ConstantCoefficient (Double 0x3FF0000000000000)\<rparr>"

definition ReturnProblem :: "'a ProblemBuilder_scheme \<Rightarrow> Problem shared_ptr" where
  "ReturnProblem self = problem self"

text \<open>
  The template getter \<open>GetProblem<TDerivedProblem>\<close>. The template argument is the
  type \<open>'d\<close> together with \<open>base_offset\<close>, the offset of the \<open>platypus::Problem\<close>
  subobject in a \<open>TDerivedProblem\<close>, which is what the cast in the last line needs of
  the class.
\<close>

definition GetProblem :: "64 word \<Rightarrow> 'a ProblemBuilder_scheme \<Rightarrow> 'd ptr abortable" where
  "GetProblem base_offset self =
     (if get (problem self) = nullptr
      then Aborted ''platypus::Problem instance is NULL.''
      else Value (static_cast base_offset (get (problem self))))"

section \<open>EquationSystemProblemBuilderInterface\<close>

text \<open>
  \<open>GetEquationSystem()\<close> is pure virtual and returns a raw pointer to the equation
  system of the problem operator. The interface's \<open>AddKernel\<close> takes what that call
  returns: \<open>None\<close> for a null pointer, otherwise the pointee. It dereferences the
  pointer without a test, so on a null pointer its behaviour is undefined, and the
  result is \<open>None\<close>; otherwise it returns the pointee as the two calls leave it.
\<close>

definition AddKernel ::
  "string \<Rightarrow> 'k \<Rightarrow> 'k EquationSystem option \<Rightarrow> 'k EquationSystem option" where
  "AddKernel var_name kernel' GetEquationSystem =
     (case GetEquationSystem of
        None \<Rightarrow> None
      | Some es \<Rightarrow>
          Some (EquationSystem_AddKernel var_name kernel'
                  (AddTrialVariableNameIfMissing var_name es)))"

section \<open>Registering variables\<close>

text \<open>
  Modelled from the spec: the body of \<open>MFEMProblem::addGridFunction\<close> is missing (the
  class declaration has its prototype and comment only). The comment says that it ``adds
  one MFEM GridFunction to be used in the MFEM solve'': the grid function made from the
  variable type and the parameters is registered under the name of the variable.
\<close>

definition addGridFunction ::
  "string \<Rightarrow> string \<Rightarrow> InputParameters \<Rightarrow> ('k, 'a) MFEMProblem_scheme
     \<Rightarrow> ('k, 'a) MFEMProblem_scheme" where
  "addGridFunction var_type var_name parameters self =
     self\<lparr>problem_data := (getProblemData self)
       \<lparr>data_gridfunctions :=
          (data_gridfunctions (getProblemData self))
            (var_name \<mapsto> GridFunction var_type parameters)\<rparr>\<rparr>"

text \<open>
  Modelled from the spec: the body of \<open>MFEMProblem::addVariable\<close> is missing (the class
  declaration has its prototype and comment only). The comment says that it ``sets a
  MFEM grid function (and time derivative, for transient problems) to be used in the
  MFEM solve''. \<open>platypus::GetTimeDerivativeNames\<close> is declared without a body: it is
  the first argument here, and it is applied to the one name that the call registers.
\<close>

definition addVariable ::
  "(string list \<Rightarrow> string list) \<Rightarrow> string \<Rightarrow> string \<Rightarrow> InputParameters
     \<Rightarrow> ('k, 'a) MFEMProblem_scheme \<Rightarrow> ('k, 'a) MFEMProblem_scheme" where
  "addVariable GetTimeDerivativeNames var_type var_name parameters self =
     (let self1 = addGridFunction var_type var_name parameters self
      in if isTransient self1
         then fold (\<lambda>name. addGridFunction var_type name parameters)
                (GetTimeDerivativeNames [var_name]) self1
         else self1)"

section \<open>Requests and what they amount to\<close>

lemma trial_var_names_from_append:
  "trial_var_names_from names (es @ es') =
     trial_var_names_from (trial_var_names_from names es) es'"
proof (induction es arbitrary: names)
  case Nil
  show ?case by simp
next
  case (Cons r es)
  then show ?case by (cases r) simp_all
qed

lemma kernels_of_append:
  "kernels_of (es @ es') name = kernels_of es name @ kernels_of es' name"
proof (induction es)
  case Nil
  show ?case by simp
next
  case (Cons r es)
  then show ?case by (cases r) simp_all
qed

lemma trial_var_names_after:
  "trial_var_names (es @ [TrialVariableNameIfMissing v, Kernel v k]) =
     add_if_missing v (trial_var_names es)"
  by (simp add: trial_var_names_def trial_var_names_from_append)

lemma kernels_of_after:
  "kernels_of (es @ [TrialVariableNameIfMissing v, Kernel v k]) name =
     (if v = name then kernels_of es name @ [k] else kernels_of es name)"
  by (simp add: kernels_of_append)

section \<open>Adding a kernel\<close>

text \<open>
  Claim C1. A call of the protected template \<open>MFEMProblem::addKernel\<close> on a problem
  whose data holds an equation system returns, and the equation system has then received
  the request to add the trial variable name if it is missing and, after it, the request
  to add the kernel under that name, and nothing else of the problem has changed. Read
  as above, the variable name is among the trial variable names afterwards, appended
  only when it was missing, and the kernel is the last one registered under the name.
  On a problem whose data holds no equation system the call ends in the error ``Cannot
  add kernel with name '...' because there is no equation system.'' with the problem as
  it was.
\<close>

theorem addKernel_equation_system_or_error:
  "(eqn_system (getProblemData self) = Some es \<longrightarrow>
      addKernel var_name kernel' self =
        Returned (self\<lparr>problem_data := (problem_data self)
          \<lparr>eqn_system :=
             Some (es @ [TrialVariableNameIfMissing var_name, Kernel var_name kernel'])\<rparr>\<rparr>)
      \<and> trial_var_names (es @ [TrialVariableNameIfMissing var_name, Kernel var_name kernel']) =
          (if var_name \<in> set (trial_var_names es) then trial_var_names es
           else trial_var_names es @ [var_name])
      \<and> kernels_of (es @ [TrialVariableNameIfMissing var_name, Kernel var_name kernel'])
            var_name =
          kernels_of es var_name @ [kernel'])
   \<and> (eqn_system (getProblemData self) = None \<longrightarrow>
        addKernel var_name kernel' self =
          Raised (''Cannot add kernel with name '' @ [CHR 0x27] @ var_name @ [CHR 0x27] @
                  '' because there is no equation system.'') self)"
  by (simp add: addKernel_def getProblemData_def AddTrialVariableNameIfMissing_def
      EquationSystem_AddKernel_def
      trial_var_names_after kernels_of_after add_if_missing_def)

text \<open>
  The theorem at two problems: one whose equation system already knows the variable
  \<open>u\<close>, and one without an equation system. The kernels are numbers.
\<close>

theorem addKernel_equation_system_or_error_witness:
  "addKernel ''u'' (7::nat)
      \<lparr>transient = False,
       problem_data = \<lparr>eqn_system = Some [TrialVariableNameIfMissing ''u''],
                       properties = PropertyManager 0,
                       data_gridfunctions = Map.empty\<rparr>\<rparr> =
     Returned
      \<lparr>transient = False,
       problem_data =
         \<lparr>eqn_system =
            Some [TrialVariableNameIfMissing ''u'', TrialVariableNameIfMissing ''u'',
                  Kernel ''u'' 7],
          properties = PropertyManager 0,
          data_gridfunctions = Map.empty\<rparr>\<rparr>
   \<and> trial_var_names
        [TrialVariableNameIfMissing ''u'', TrialVariableNameIfMissing ''u'',
         Kernel ''u'' (7::nat)] = [''u'']
   \<and> kernels_of
        [TrialVariableNameIfMissing ''u'', TrialVariableNameIfMissing ''u'',
         Kernel ''u'' (7::nat)] ''u'' = [7]
   \<and> addKernel ''u'' (7::nat)
        \<lparr>transient = False,
         problem_data = \<lparr>eqn_system = None, properties = PropertyManager 0,
                         data_gridfunctions = Map.empty\<rparr>\<rparr> =
       Raised (''Cannot add kernel with name '' @ [CHR 0x27] @ ''u'' @ [CHR 0x27] @
               '' because there is no equation system.'')
        \<lparr>transient = False,
         problem_data = \<lparr>eqn_system = None, properties = PropertyManager 0,
                         data_gridfunctions = Map.empty\<rparr>\<rparr>"
  using
    addKernel_equation_system_or_error
      [of "\<lparr>transient = False,
            problem_data = \<lparr>eqn_system = Some [TrialVariableNameIfMissing ''u''],
                            properties = PropertyManager 0,
                            data_gridfunctions = Map.empty\<rparr>\<rparr>"
          "[TrialVariableNameIfMissing ''u'']" "''u''" "7::nat"]
    addKernel_equation_system_or_error
      [of "\<lparr>transient = False,
            problem_data = \<lparr>eqn_system = None, properties = PropertyManager 0,
                            data_gridfunctions = Map.empty\<rparr>\<rparr>"
          "[]" "''u''" "7::nat"]
  by (simp add: getProblemData_def trial_var_names_def add_if_missing_def)

text \<open>
  Claim C9. When an equation system is present, \<open>MFEMProblem::addKernel\<close> leaves the
  equation system of the problem data exactly as
  \<open>EquationSystemProblemBuilderInterface::AddKernel\<close> leaves the equation system that
  \<open>GetEquationSystem()\<close> points to: in both, the equation system receives
  \<open>AddTrialVariableNameIfMissing(var_name)\<close> first and \<open>AddKernel(var_name, kernel)\<close>
  second, after whatever it had received before.
\<close>

theorem addKernel_agrees_with_interface_AddKernel:
  "eqn_system (getProblemData self) = Some es \<Longrightarrow>
     addKernel var_name kernel' self =
       Returned (self\<lparr>problem_data := (problem_data self)
         \<lparr>eqn_system := AddKernel var_name kernel' (Some es)\<rparr>\<rparr>)
     \<and> AddKernel var_name kernel' (Some es) =
         Some (EquationSystem_AddKernel var_name kernel'
                 (AddTrialVariableNameIfMissing var_name es))
     \<and> EquationSystem_AddKernel var_name kernel' (AddTrialVariableNameIfMissing var_name es) =
         es @ [TrialVariableNameIfMissing var_name, Kernel var_name kernel']"
  by (simp add: addKernel_def AddKernel_def getProblemData_def
      AddTrialVariableNameIfMissing_def EquationSystem_AddKernel_def)

text \<open>
  The theorem at a transient problem whose equation system has one kernel for \<open>v\<close>.
\<close>

theorem addKernel_agrees_with_interface_AddKernel_witness:
  "addKernel ''u'' (2::nat)
      \<lparr>transient = True,
       problem_data = \<lparr>eqn_system = Some [Kernel ''v'' 1],
                       properties = PropertyManager 3,
                       data_gridfunctions = Map.empty\<rparr>\<rparr> =
     Returned
      \<lparr>transient = True,
       problem_data =
         \<lparr>eqn_system = Some [Kernel ''v'' 1, TrialVariableNameIfMissing ''u'', Kernel ''u'' 2],
          properties = PropertyManager 3,
          data_gridfunctions = Map.empty\<rparr>\<rparr>
   \<and> AddKernel ''u'' (2::nat) (Some [Kernel ''v'' 1]) =
       Some [Kernel ''v'' 1, TrialVariableNameIfMissing ''u'', Kernel ''u'' 2]"
  using
    addKernel_agrees_with_interface_AddKernel
      [of "\<lparr>transient = True,
            problem_data = \<lparr>eqn_system = Some [Kernel ''v'' 1],
                            properties = PropertyManager 3,
                            data_gridfunctions = Map.empty\<rparr>\<rparr>"
          "[Kernel ''v'' (1::nat)]" "''u''" "2::nat"]
  by (simp add: getProblemData_def AddTrialVariableNameIfMissing_def
      EquationSystem_AddKernel_def)

section \<open>Members with an empty body\<close>

text \<open>
  Claim C2. The wrapper does no solving of its own. \<open>MFEMProblem::externalSolve\<close> and
  \<open>MFEMProblem::syncSolutions\<close> return the problem as they found it, whatever the
  direction. \<open>TimeDomainProblemOperator::ImplicitSolve\<close> returns \<open>dX_dt\<close> and the
  operator as they were, for every \<open>dt\<close> and every \<open>X\<close>; in particular the problem that
  the operator refers to keeps its time integrator and its Newton solver, which the
  problem holds as pointers to objects of the library's types \<open>mfem::ODESolver\<close> and
  \<open>mfem::NewtonSolver\<close>.
\<close>

theorem wrapper_performs_no_solving:
  "externalSolve self = self
   \<and> syncSolutions direction self = self
   \<and> ImplicitSolve dt X dX_dt oper = (dX_dt, oper)
   \<and> (ode_solver (operator_problem (snd (ImplicitSolve dt X dX_dt oper))) :: ODESolver option) =
       ode_solver (operator_problem oper)
   \<and> (nonlinear_solver (operator_problem (snd (ImplicitSolve dt X dX_dt oper)))
          :: NewtonSolver option) =
       nonlinear_solver (operator_problem oper)"
  by (simp add: externalSolve_def syncSolutions_def ImplicitSolve_def)

text \<open>
  Claim C6. \<open>MFEMMaterial\<close> does no work in the members it defines in its declaration:
  \<open>execute\<close>, \<open>initialize\<close> and \<open>finalize\<close> return the material as it was, and the
  default \<open>storeCoefficients\<close> returns the subdomain and the material as they were, for
  every material, whatever its base class stores, and every subdomain.
\<close>

theorem MFEMMaterial_members_change_nothing:
  "execute material = material
   \<and> initialize material = material
   \<and> finalize material = material
   \<and> storeCoefficients subdomain material = (subdomain, material)"
  by (simp add: execute_def initialize_def finalize_def storeCoefficients_def)

text \<open>
  Claim C7. \<open>MFEMProblem::nlConverged\<close> returns true for every nonlinear system number
  and every state of the problem, and leaves the problem as it was.
\<close>

theorem nlConverged_always_true:
  "nlConverged nl_sys_num self = (True, self)"
  by (simp add: nlConverged_def)

section \<open>Getting the problem of a builder\<close>

text \<open>
  Claim C8. \<open>ProblemBuilder::GetProblem<TDerivedProblem>\<close> aborts exactly when the
  pointer that the builder stores is null. When the stored pointer is not null, in
  whatever state the builder and its derived class are, the call does not abort: it
  returns a pointer that is not null, the stored pointer cast to \<open>TDerivedProblem\<close>,
  which points to the stored problem: its address is the stored address less the offset
  of \<open>platypus::Problem\<close> in \<open>TDerivedProblem\<close>, converting it back to a pointer to
  \<open>platypus::Problem\<close> gives the stored pointer, and it is the stored address itself
  when the offset is 0. The constructor stores the pointer it is given, which is also
  what \<open>ReturnProblem\<close> holds, so a builder constructed with a pointer that is not null
  is such a builder.
\<close>

theorem GetProblem_aborts_iff_null:
  "((\<exists>msg. (GetProblem base_offset self :: 'd ptr abortable) = Aborted msg) \<longleftrightarrow>
      get (problem self) = nullptr)
   \<and> (get (problem self) \<noteq> nullptr \<longrightarrow>
        (\<exists>a. get (problem self) = Ptr a
           \<and> (GetProblem base_offset self :: 'd ptr abortable) =
               Value (Ptr (a - base_offset))
           \<and> (Ptr (a - base_offset) :: 'd ptr) \<noteq> nullptr
           \<and> to_base base_offset (Ptr (a - base_offset) :: 'd ptr) = get (problem self)
           \<and> (GetProblem 0 self :: 'd ptr abortable) = Value (Ptr a)))
   \<and> get (problem (ProblemBuilder p)) = p
   \<and> get (ReturnProblem (ProblemBuilder p)) = p
   \<and> (p \<noteq> nullptr \<longrightarrow>
        (\<exists>a. p = Ptr a
           \<and> (GetProblem base_offset (ProblemBuilder p) :: 'd ptr abortable) =
               Value (Ptr (a - base_offset))
           \<and> (Ptr (a - base_offset) :: 'd ptr) \<noteq> nullptr
           \<and> to_base base_offset (Ptr (a - base_offset) :: 'd ptr) =
               get (ReturnProblem (ProblemBuilder p))))"
proof -
  have aborts: "(\<exists>msg. (GetProblem base_offset self :: 'd ptr abortable) = Aborted msg) \<longleftrightarrow>
      get (problem self) = nullptr"
    by (simp add: GetProblem_def)
  have returns: "(GetProblem off b :: 'd ptr abortable) = Value (Ptr (a - off))
      \<and> to_base off (Ptr (a - off) :: 'd ptr) = get (problem b)"
    if "get (problem b) = Ptr a" for off a and b :: "'b ProblemBuilder_scheme"
    using that by (simp add: GetProblem_def static_cast_def to_base_def)
  have stored: "get (problem (ProblemBuilder p)) = p"
    by (simp add: ProblemBuilder_def)
  have returned: "get (ReturnProblem (ProblemBuilder p)) = p"
    by (simp add: ProblemBuilder_def ReturnProblem_def)
  have any_builder: "\<exists>a. get (problem self) = Ptr a
      \<and> (GetProblem base_offset self :: 'd ptr abortable) = Value (Ptr (a - base_offset))
      \<and> (Ptr (a - base_offset) :: 'd ptr) \<noteq> nullptr
      \<and> to_base base_offset (Ptr (a - base_offset) :: 'd ptr) = get (problem self)
      \<and> (GetProblem 0 self :: 'd ptr abortable) = Value (Ptr a)"
    if "get (problem self) \<noteq> nullptr"
  proof -
    from that obtain a where a: "get (problem self) = Ptr a"
      by (cases "get (problem self)") simp_all
    from returns [OF a, of base_offset] returns [OF a, of 0] a show ?thesis
      by simp
  qed
  have constructed: "\<exists>a. p = Ptr a
      \<and> (GetProblem base_offset (ProblemBuilder p) :: 'd ptr abortable) =
          Value (Ptr (a - base_offset))
      \<and> (Ptr (a - base_offset) :: 'd ptr) \<noteq> nullptr
      \<and> to_base base_offset (Ptr (a - base_offset) :: 'd ptr) =
          get (ReturnProblem (ProblemBuilder p))"
    if "p \<noteq> nullptr"
  proof -
    from that obtain a where a: "p = Ptr a"
      by (cases p) simp_all
    have "get (problem (ProblemBuilder p)) = Ptr a"
      using stored a by simp
    from returns [OF this, of base_offset] a stored returned show ?thesis
      by simp
  qed
  from aborts any_builder stored returned constructed show ?thesis
    by blast
qed

text \<open>
  The theorem at a builder made from the null pointer, and at one made from the address
  93824992440352 of a problem that lies 16 bytes into the object of its derived class:
  the call returns the address 93824992440336, and with the offset 0 the stored address.
\<close>

theorem GetProblem_aborts_iff_null_witness:
  "(\<exists>msg. (GetProblem 16 (ProblemBuilder nullptr) :: unit ptr abortable) = Aborted msg)
   \<and> get (problem (ProblemBuilder nullptr)) = nullptr
   \<and> get (problem (ProblemBuilder (Ptr 93824992440352))) \<noteq> nullptr
   \<and> (GetProblem 16 (ProblemBuilder (Ptr 93824992440352)) :: unit ptr abortable) =
       Value (Ptr 93824992440336)
   \<and> (to_base 16 (Ptr 93824992440336 :: unit ptr) :: Problem ptr) = Ptr 93824992440352
   \<and> (GetProblem 0 (ProblemBuilder (Ptr 93824992440352)) :: unit ptr abortable) =
       Value (Ptr 93824992440352)
   \<and> get (ReturnProblem (ProblemBuilder (Ptr 93824992440352))) = Ptr 93824992440352"
  using
    GetProblem_aborts_iff_null
      [where ?'d = unit and base_offset = 16 and self = "ProblemBuilder nullptr"
         and p = "Ptr 93824992440352"]
    GetProblem_aborts_iff_null
      [where ?'d = unit and base_offset = 16
         and self = "ProblemBuilder (Ptr 93824992440352)" and p = "Ptr 93824992440352"]
  by (simp add: ProblemBuilder_def to_base_def)

section \<open>Adding a variable\<close>

lemma fold_addGridFunction_dom:
  "dom (data_gridfunctions (problem_data
          (fold (\<lambda>name. addGridFunction var_type name ps) names self))) =
     dom (data_gridfunctions (problem_data self)) \<union> set names"
proof (induction names arbitrary: self)
  case Nil
  show ?case by simp
next
  case (Cons n names)
  show ?case
    by (simp add: Cons.IH) (auto simp: addGridFunction_def getProblemData_def)
qed

lemma fold_addGridFunction_lookup:
  "data_gridfunctions (problem_data
       (fold (\<lambda>name. addGridFunction var_type name ps) names self)) v =
     (if v \<in> set names then Some (GridFunction var_type ps)
      else data_gridfunctions (problem_data self) v)"
proof (induction names arbitrary: self)
  case Nil
  show ?case by simp
next
  case (Cons n names)
  show ?case
    by (simp add: Cons.IH) (simp add: addGridFunction_def getProblemData_def)
qed

text \<open>
  Claim C5. After a call of \<open>MFEMProblem::addVariable\<close> the grid function registry
  holds, next to what it held before, a grid function under the name of the variable
  and, when the problem is transient, one under each name that
  \<open>GetTimeDerivativeNames\<close> gives for the name of the variable; when the problem is
  not transient, the name of the variable is the only new one. The grid function under
  the name of the variable is the one made from the type and the parameters of the call.
\<close>

theorem addVariable_registers_grid_functions:
  "dom (data_gridfunctions (problem_data
          (addVariable GetTimeDerivativeNames var_type var_name ps self))) =
     dom (data_gridfunctions (problem_data self)) \<union> {var_name} \<union>
       (if isTransient self then set (GetTimeDerivativeNames [var_name]) else {})
   \<and> data_gridfunctions (problem_data
          (addVariable GetTimeDerivativeNames var_type var_name ps self)) var_name =
       Some (GridFunction var_type ps)"
proof -
  let ?self1 = "addGridFunction var_type var_name ps self"
  have t: "isTransient ?self1 = isTransient self"
    by (simp add: isTransient_def addGridFunction_def)
  have d: "dom (data_gridfunctions (problem_data ?self1)) =
             dom (data_gridfunctions (problem_data self)) \<union> {var_name}"
    by (auto simp: addGridFunction_def getProblemData_def)
  have l: "data_gridfunctions (problem_data ?self1) var_name = Some (GridFunction var_type ps)"
    by (simp add: addGridFunction_def getProblemData_def)
  show ?thesis
    by (simp add: addVariable_def Let_def t d l fold_addGridFunction_dom
        fold_addGridFunction_lookup)
qed

end
